theory Spec2Isabelle
  imports Main "HOL-Library.Word"
begin

section \<open>The light client proxy command (cmd/tendermint/commands/lite.go)\<close>

text \<open>
  The command \<open>light [chainID]\<close> resolves the upstream providers (from the flags or from
  the database), parses the trust level, builds a light client, and serves a proxy.
  The embedding follows \<open>runProxy\<close>, \<open>checkForExistingProviders\<close> and
  \<open>saveProviders\<close> statement by statement. Everything the command does to the outside
  (database reads and writes, log lines, constructor calls of the collaborating packages)
  is appended, in program order, to a list of events.
\<close>

subsection \<open>Values\<close>

text \<open>\<open>int64\<close> and \<open>time.Duration\<close> (an \<open>int64\<close> of nanoseconds) are 64-bit words,
  compared as signed values; \<open>[]byte\<close> and \<open>string\<close> are byte lists.\<close>

type_synonym int64 = "64 word"
type_synonym Duration = "64 word"

definition Second :: Duration where
  "Second = 1000000000"

text \<open>Go's \<open>error\<close> values that the command creates or passes on. \<open>ErrExternal\<close> is an
  error made by a collaborating package; \<open>ErrServerClosed\<close> is \<open>http.ErrServerClosed\<close>;
  the others are the wrappers of this file, named after their messages.\<close>

datatype err =
    ErrExternal string
  | ErrServerClosed
  | CantCreateDb err
  | FailedToRetrieve err
  | NoPrimaryAddress
  | CantParseTrustLevel err
  | HttpClientFor string err
  | FailedToSavePrimary err
  | FailedToSaveWitness err

text \<open>The package-level flag variables, with the positional argument \<open>args[0]\<close>
  (\<open>cobra.ExactArgs(1)\<close> guarantees it exists).\<close>

record flags =
  args0 :: string
  listenAddr :: string
  primaryAddr :: string
  witnessAddrsJoined :: string
  home :: string
  maxOpenConnections :: int
  sequential :: bool
  trustingPeriod :: Duration
  trustedHeight :: int64
  trustedHash :: "8 word list"
  trustLevelStr :: string
  verbose :: bool

record Fraction =
  Numerator :: int
  Denominator :: int

record TrustOptions =
  Period :: Duration
  Height :: int64
  Hash :: "8 word list"

datatype Store = dbs_New string

datatype Option = Logger | SequentialVerification | SkippingVerification Fraction

text \<open>A light client is identified with the constructor call that builds it: the
  arguments are in the order of the source.\<close>

datatype Client =
    NewHTTPClient string TrustOptions string "string list" Store "Option list"
  | NewHTTPClientFromTrustedStore string Duration string "string list" Store "Option list"

record Config =
  MaxBodyBytes :: int
  MaxHeaderBytes :: int
  MaxOpenConnections :: int
  ReadTimeout :: Duration
  WriteTimeout :: Duration

record Proxy =
  Addr :: string
  Config :: Config
  Client_rpc :: "string \<times> string"
  Client_light :: Client

text \<open>The effects of a run, in program order: log lines, database operations with
  their outcome, the constructor call of package \<open>light\<close>, \<open>rpchttp.New\<close>,
  \<open>tmos.TrapSignal\<close> and \<open>Proxy.ListenAndServe\<close>.\<close>

datatype event =
    Logger_Info string
  | Logger_Error string "err option"
  | DB_Get string "err option"
  | DB_Set string string "err option"
  | Light_New Client
  | Rpchttp_New string string
  | TrapSignal
  | ListenAndServe Proxy

subsection \<open>The collaborators\<close>

text \<open>What the packages behind the imports answer is a parameter of the model:
  \<open>dbm.NewGoLevelDB\<close>, the two constructors of package \<open>light\<close>, \<open>rpchttp.New\<close>,
  \<open>rpcserver.DefaultConfig\<close>, the three fields of the global \<open>config.RPC\<close> that
  \<open>runProxy\<close> reads, and \<open>Proxy.ListenAndServe\<close>.\<close>

record env =
  NewGoLevelDB :: "string \<Rightarrow> string \<Rightarrow> err option"
  light_err :: "Client \<Rightarrow> err option"
  rpchttp_err :: "string \<Rightarrow> string \<Rightarrow> err option"
  DefaultConfig :: Config
  RPC_MaxBodyBytes :: int
  RPC_MaxHeaderBytes :: int
  RPC_TimeoutBroadcastTxCommit :: Duration
  ListenAndServe_err :: "Proxy \<Rightarrow> err option"

text \<open>The state outside the program: the key-value content of the database, the errors
  its next operations will return (one entry per \<open>Get\<close> or \<open>Set\<close>, in order;
  \<open>None\<close> and an exhausted list mean success), and the events so far.\<close>

record world =
  db_data :: "string \<rightharpoonup> string"
  db_faults :: "err option list"
  events :: "event list"

definition emit :: "event \<Rightarrow> world \<Rightarrow> world" where
  "emit e w = w\<lparr>events := events w @ [e]\<rparr>"

definition next_fault :: "world \<Rightarrow> err option \<times> world" where
  "next_fault w =
     (case db_faults w of
        [] \<Rightarrow> (None, w)
      | f # fs \<Rightarrow> (f, w\<lparr>db_faults := fs\<rparr>))"

text \<open>\<open>db.Get\<close> of the tm-db interface: the value of the key, or \<open>nil\<close> (which
  \<open>string(...)\<close> turns into the empty string) when the key does not exist.\<close>

definition db_Get :: "string \<Rightarrow> world \<Rightarrow> (string \<times> err option) \<times> world" where
  "db_Get key w =
     (case next_fault w of
        (Some e, w') \<Rightarrow> (([], Some e), emit (DB_Get key (Some e)) w')
      | (None, w') \<Rightarrow>
          ((case db_data w' key of None \<Rightarrow> [] | Some v \<Rightarrow> v, None), emit (DB_Get key None) w'))"

text \<open>\<open>db.Set\<close>: a failed write leaves the content as it was.\<close>

definition db_Set :: "string \<Rightarrow> string \<Rightarrow> world \<Rightarrow> err option \<times> world" where
  "db_Set key v w =
     (case next_fault w of
        (Some e, w') \<Rightarrow> (Some e, emit (DB_Set key v (Some e)) w')
      | (None, w') \<Rightarrow>
          (None, emit (DB_Set key v None) (w'\<lparr>db_data := (db_data w')(key \<mapsto> v)\<rparr>)))"

text \<open>\<open>strings.Split(s, sep)\<close> for a separator of one byte: the pieces between the
  separators, so \<open>n\<close> separators give \<open>n + 1\<close> pieces and the empty string gives one
  empty piece.\<close>

fun strings_Split :: "string \<Rightarrow> char \<Rightarrow> string list" where
  "strings_Split [] sep = [[]]"
| "strings_Split (c # cs) sep =
     (if c = sep then [] # strings_Split cs sep
      else (case strings_Split cs sep of
              [] \<Rightarrow> [[c]]
            | p # ps \<Rightarrow> (c # p) # ps))"

subsection \<open>The trust level\<close>

text \<open>\<open>tmmath.NewFraction\<close> (package libs/math) is not among the sources; it and
  its parts are written from the spec's sentence: validate the trust-level fraction
  string; fail if it does not parse or falls outside \<open>[1/3, 1]\<close>.\<close>

text \<open>Modelled from the spec: a decimal digit of a fraction string (the parser of
  libs/math is missing).\<close>

definition is_digit :: "char \<Rightarrow> bool" where
  "is_digit c = (c \<in> set ''0123456789'')"

text \<open>Modelled from the spec: the value of a non-empty run of decimal digits (the parser
  of libs/math is missing).\<close>

definition parse_digits :: "string \<Rightarrow> int option" where
  "parse_digits s =
     (if s \<noteq> [] \<and> list_all is_digit s
      then Some (foldl (\<lambda>n c. 10 * n + (of_char c - 48)) 0 s)
      else None)"

text \<open>Modelled from the spec: a string parses as a fraction when it is two runs of
  decimal digits around one slash and the denominator is not zero (the parser of
  libs/math is missing).\<close>

definition parse_fraction :: "string \<Rightarrow> Fraction option" where
  "parse_fraction s =
     (case strings_Split s (CHR ''/'') of
        [a, b] \<Rightarrow>
          (case (parse_digits a, parse_digits b) of
             (Some n, Some d) \<Rightarrow>
               if d = 0 then None else Some \<lparr>Numerator = n, Denominator = d\<rparr>
           | _ \<Rightarrow> None)
      | _ \<Rightarrow> None)"

text \<open>Modelled from the spec: the interval \<open>[1/3, 1]\<close> of the trust level, for a
  positive denominator (the validation of libs/math is missing).\<close>

definition in_trust_range :: "Fraction \<Rightarrow> bool" where
  "in_trust_range fr =
     (Denominator fr \<le> 3 * Numerator fr \<and> Numerator fr \<le> Denominator fr)"

text \<open>Modelled from the spec: \<open>tmmath.NewFraction\<close>, missing from the sources, fails
  when the string does not parse or its value falls outside \<open>[1/3, 1]\<close>.\<close>

definition NewFraction :: "string \<Rightarrow> err + Fraction" where
  "NewFraction s =
     (case parse_fraction s of
        None \<Rightarrow> Inl (ErrExternal ''fraction: does not parse'')
      | Some fr \<Rightarrow>
          if in_trust_range fr then Inr fr
          else Inl (ErrExternal ''fraction: outside [1/3, 1]''))"

subsection \<open>The provider store\<close>

text \<open>\<open>checkForExistingProviders\<close> (lines 233 to 244).\<close>

definition checkForExistingProviders :: "world \<Rightarrow> (string \<times> string list \<times> err option) \<times> world" where
  "checkForExistingProviders w =
     (case db_Get ''p'' w of
        ((primaryBytes, Some e), w1) \<Rightarrow> (([], [[]], Some e), w1)
      | ((primaryBytes, None), w1) \<Rightarrow>
          (case db_Get ''w'' w1 of
             ((witnessesBytes, Some e), w2) \<Rightarrow> (([], [[]], Some e), w2)
           | ((witnessesBytes, None), w2) \<Rightarrow>
               ((primaryBytes, strings_Split witnessesBytes (CHR '',''), None), w2)))"

text \<open>\<open>saveProviders\<close> (lines 246 to 256).\<close>

definition saveProviders :: "string \<Rightarrow> string \<Rightarrow> world \<Rightarrow> err option \<times> world" where
  "saveProviders primaryAddr' witnessesAddrs w =
     (case db_Set ''p'' primaryAddr' w of
        (Some e, w1) \<Rightarrow> (Some (FailedToSavePrimary e), w1)
      | (None, w1) \<Rightarrow>
          (case db_Set ''w'' witnessesAddrs w1 of
             (Some e, w2) \<Rightarrow> (Some (FailedToSaveWitness e), w2)
           | (None, w2) \<Rightarrow> (None, w2)))"

subsection \<open>runProxy\<close>

text \<open>Lines 105 to 110: the witnesses given on the command line.\<close>

definition flagWitnesses :: "string \<Rightarrow> string list" where
  "flagWitnesses joined = (if joined = [] then [] else strings_Split joined (CHR '',''))"

text \<open>Lines 112 to 132: the providers of this run, from the database when no primary
  was given, from the flags (and saved) otherwise.\<close>

definition resolveProviders :: "env \<Rightarrow> flags \<Rightarrow> world \<Rightarrow> (err + string \<times> string list) \<times> world" where
  "resolveProviders en fl w =
     (case NewGoLevelDB en ''light-client-db'' (home fl) of
        Some e \<Rightarrow> (Inl (CantCreateDb e), w)
      | None \<Rightarrow>
          if primaryAddr fl = [] then
            (case checkForExistingProviders w of
               ((p, ws, Some e), w1) \<Rightarrow> (Inl (FailedToRetrieve e), w1)
             | ((p, ws, None), w1) \<Rightarrow>
                 if p = [] then (Inl NoPrimaryAddress, w1) else (Inr (p, ws), w1))
          else
            (case saveProviders (primaryAddr fl) (witnessAddrsJoined fl) w of
               (Some e, w1) \<Rightarrow>
                 (Inr (primaryAddr fl, flagWitnesses (witnessAddrsJoined fl)),
                  emit (Logger_Error ''Unable to save primary and or witness addresses'' (Some e)) w1)
             | (None, w1) \<Rightarrow>
                 (Inr (primaryAddr fl, flagWitnesses (witnessAddrsJoined fl)), w1)))"

text \<open>Lines 139 to 192: the constructor call, one of four.\<close>

definition newClient :: "flags \<Rightarrow> Fraction \<Rightarrow> string \<Rightarrow> string list \<Rightarrow> Client" where
  "newClient fl trustLevel p ws =
     (if 0 <s trustedHeight fl \<and> 0 < length (trustedHash fl) then
        (if sequential fl then
           NewHTTPClient (args0 fl)
             \<lparr>Period = trustingPeriod fl, Height = trustedHeight fl, Hash = trustedHash fl\<rparr>
             p ws (dbs_New (args0 fl)) [Logger, SequentialVerification]
         else
           NewHTTPClient (args0 fl)
             \<lparr>Period = trustingPeriod fl, Height = trustedHeight fl, Hash = trustedHash fl\<rparr>
             p ws (dbs_New (args0 fl)) [Logger, SkippingVerification trustLevel])
      else
        (if sequential fl then
           NewHTTPClientFromTrustedStore (args0 fl) (trustingPeriod fl)
             p ws (dbs_New (args0 fl)) [Logger, SkippingVerification trustLevel]
         else
           NewHTTPClientFromTrustedStore (args0 fl) (trustingPeriod fl)
             p ws (dbs_New (args0 fl)) [Logger, SequentialVerification]))"

text \<open>Lines 202 to 211: the server's configuration.\<close>

definition serverConfig :: "env \<Rightarrow> flags \<Rightarrow> Config" where
  "serverConfig en fl =
     (let cfg = (DefaultConfig en)
            \<lparr>MaxBodyBytes := RPC_MaxBodyBytes en,
             MaxHeaderBytes := RPC_MaxHeaderBytes en,
             MaxOpenConnections := maxOpenConnections fl\<rparr>
      in if WriteTimeout cfg \<le>s RPC_TimeoutBroadcastTxCommit en
         then cfg\<lparr>WriteTimeout := RPC_TimeoutBroadcastTxCommit en + 1 * Second\<rparr>
         else cfg)"

text \<open>\<open>runProxy\<close> (lines 91 to 231). The result is the returned \<open>error\<close>
  (\<open>None\<close> for \<open>nil\<close>) and the world after the run. In the order of the source: the
  log line of line 103; the providers (lines 105 to 132, \<open>resolveProviders\<close>); the
  trust level (lines 134 to 137); the light client (lines 139 to 195, \<open>newClient\<close>);
  the transport client (lines 197 to 200); the configuration (lines 202 to 211,
  \<open>serverConfig\<close>); the proxy, the signal handler and serving (lines 213 to 230).
  The logger lets lines of level info and error pass whether \<open>verbose\<close> is set or not
  (it only adds level debug), so every \<open>logger.Info\<close> and \<open>logger.Error\<close> of the
  function is an event. How serving ends, by the signal handler closing the listener or
  by an error, is the answer of \<open>ListenAndServe_err\<close>.\<close>

definition runProxy :: "env \<Rightarrow> flags \<Rightarrow> world \<Rightarrow> err option \<times> world" where
  "runProxy en fl w0 =
     (case resolveProviders en fl (emit (Logger_Info ''Creating client...'') w0) of
        (Inl e, w1) \<Rightarrow> (Some e, w1)
      | (Inr (p, ws), w1) \<Rightarrow>
          (case NewFraction (trustLevelStr fl) of
             Inl e \<Rightarrow> (Some (CantParseTrustLevel e), w1)
           | Inr trustLevel \<Rightarrow>
               (let c = newClient fl trustLevel p ws;
                    w2 = emit (Light_New c) w1
                in case light_err en c of
                     Some e \<Rightarrow> (Some e, w2)
                   | None \<Rightarrow>
                       (let w3 = emit (Rpchttp_New p ''/websocket'') w2
                        in case rpchttp_err en p ''/websocket'' of
                             Some e \<Rightarrow> (Some (HttpClientFor p e), w3)
                           | None \<Rightarrow>
                               (let px = \<lparr>Addr = listenAddr fl, Config = serverConfig en fl,
                                          Client_rpc = (p, ''/websocket''), Client_light = c\<rparr>;
                                    w4 = emit TrapSignal w3;
                                    w5 = emit (Logger_Info ''Starting proxy...'') w4;
                                    w6 = emit (ListenAndServe px) w5
                                in if ListenAndServe_err en px \<noteq> Some ErrServerClosed
                                   then (None, emit (Logger_Error ''proxy ListenAndServe''
                                                      (ListenAndServe_err en px)) w6)
                                   else (None, w6))))))"

subsection \<open>Reading a run\<close>

definition init_world :: "(string \<rightharpoonup> string) \<Rightarrow> err option list \<Rightarrow> world" where
  "init_world d fs = \<lparr>db_data = d, db_faults = fs, events = []\<rparr>"

text \<open>The light clients constructed, the transport clients constructed and the proxies
  served in a list of events.\<close>

fun clients :: "event list \<Rightarrow> Client list" where
  "clients [] = []"
| "clients (Light_New c # es) = c # clients es"
| "clients (e # es) = clients es"

fun transports :: "event list \<Rightarrow> (string \<times> string) list" where
  "transports [] = []"
| "transports (Rpchttp_New a b # es) = (a, b) # transports es"
| "transports (e # es) = transports es"

fun served :: "event list \<Rightarrow> Proxy list" where
  "served [] = []"
| "served (ListenAndServe px # es) = px # served es"
| "served (e # es) = served es"

fun is_fresh :: "Client \<Rightarrow> bool" where
  "is_fresh (NewHTTPClient chainID opts p ws st os) = True"
| "is_fresh (NewHTTPClientFromTrustedStore chainID period p ws st os) = False"

fun is_resume :: "Client \<Rightarrow> bool" where
  "is_resume (NewHTTPClient chainID opts p ws st os) = False"
| "is_resume (NewHTTPClientFromTrustedStore chainID period p ws st os) = True"

fun witnesses :: "Client \<Rightarrow> string list" where
  "witnesses (NewHTTPClient chainID opts p ws st os) = ws"
| "witnesses (NewHTTPClientFromTrustedStore chainID period p ws st os) = ws"

fun options :: "Client \<Rightarrow> Option list" where
  "options (NewHTTPClient chainID opts p ws st os) = os"
| "options (NewHTTPClientFromTrustedStore chainID period p ws st os) = os"

text \<open>The flags' defaults, from \<open>init\<close> (lines 65 to 89), for a chain named
  \<open>chain\<close>; 168 hours are 604800000000000 nanoseconds.\<close>

definition default_flags :: flags where
  "default_flags =
     \<lparr>args0 = ''chain'', listenAddr = ''tcp://localhost:8888'', primaryAddr = [],
      witnessAddrsJoined = [], home = ''.tendermint-light'', maxOpenConnections = 900,
      sequential = False, trustingPeriod = 604800000000000, trustedHeight = 1,
      trustedHash = [], trustLevelStr = ''1/3'', verbose = False\<rparr>"

text \<open>Collaborators that all succeed: the database opens, the constructors return no
  error, the server's defaults are timeouts of ten seconds, and serving ends with
  \<open>http.ErrServerClosed\<close>.\<close>

definition good_env :: env where
  "good_env =
     \<lparr>NewGoLevelDB = (\<lambda>name dir. None), light_err = (\<lambda>c. None),
      rpchttp_err = (\<lambda>remote ws. None),
      DefaultConfig = \<lparr>MaxBodyBytes = 1000000, MaxHeaderBytes = 1048576,
        MaxOpenConnections = 0, ReadTimeout = 10 * Second, WriteTimeout = 10 * Second\<rparr>,
      RPC_MaxBodyBytes = 1000000, RPC_MaxHeaderBytes = 1048576,
      RPC_TimeoutBroadcastTxCommit = 10 * Second,
      ListenAndServe_err = (\<lambda>px. Some ErrServerClosed)\<rparr>"

text \<open>A fresh start as in the command's example: a primary, a trusted height and a
  trusted hash.\<close>

definition fresh_flags :: flags where
  "fresh_flags = default_flags\<lparr>primaryAddr := ''http://A'', trustedHeight := 100,
     trustedHash := [0xDE, 0xAD]\<rparr>"

text \<open>A restart as the command's help describes it, with the primary given and no
  trusted hash: the path that continues from the latest state.\<close>

definition resume_flags :: flags where
  "resume_flags = default_flags\<lparr>primaryAddr := ''http://A''\<rparr>"

text \<open>Collaborators that succeed, except that serving fails to bind the address.\<close>

definition bind_env :: env where
  "bind_env = good_env\<lparr>ListenAndServe_err :=
     (\<lambda>px. Some (ErrExternal ''listen tcp: address already in use''))\<rparr>"

text \<open>The proxy that a fresh start with the default configuration serves.\<close>

definition fresh_proxy :: Proxy where
  "fresh_proxy =
     \<lparr>Addr = ''tcp://localhost:8888'',
      Config = \<lparr>MaxBodyBytes = 1000000, MaxHeaderBytes = 1048576, MaxOpenConnections = 900,
                ReadTimeout = 10000000000, WriteTimeout = 11000000000\<rparr>,
      Client_rpc = (''http://A'', ''/websocket''),
      Client_light = NewHTTPClient ''chain''
        \<lparr>Period = 604800000000000, Height = 100, Hash = [0xDE, 0xAD]\<rparr>
        ''http://A'' [] (dbs_New ''chain'')
        [Logger, SkippingVerification \<lparr>Numerator = 1, Denominator = 3\<rparr>]\<rparr>"

text \<open>Collaborators that succeed, with the largest \<open>time.Duration\<close> as the timeout of
  \<open>broadcast_tx_commit\<close>.\<close>

definition max_timeout_env :: env where
  "max_timeout_env = good_env\<lparr>RPC_TimeoutBroadcastTxCommit := 9223372036854775807\<rparr>"

text \<open>A database whose first write succeeds and whose second write fails.\<close>

definition full_disk :: "err option list" where
  "full_disk = [None, Some (ErrExternal ''no space left on device'')]"

section \<open>Properties\<close>

subsection \<open>Events of a run\<close>

lemma clients_append [simp]: "clients (xs @ ys) = clients xs @ clients ys"
  by (induction xs rule: clients.induct) simp_all

lemma transports_append [simp]: "transports (xs @ ys) = transports xs @ transports ys"
  by (induction xs rule: transports.induct) simp_all

lemma served_append [simp]: "served (xs @ ys) = served xs @ served ys"
  by (induction xs rule: served.induct) simp_all

text \<open>\<open>strings.Split\<close> always returns at least one piece.\<close>

lemma strings_Split_not_Nil: "strings_Split s sep \<noteq> []"
  by (induction s) (auto split: list.splits)

lemmas db_defs = db_Get_def db_Set_def next_fault_def emit_def init_world_def

lemmas provider_defs = resolveProviders_def checkForExistingProviders_def saveProviders_def

lemmas eval_defs = runProxy_def resolveProviders_def checkForExistingProviders_def
  saveProviders_def db_Get_def db_Set_def next_fault_def emit_def init_world_def
  NewFraction_def parse_fraction_def parse_digits_def is_digit_def in_trust_range_def
  newClient_def serverConfig_def flagWitnesses_def Second_def good_env_def default_flags_def
  Let_def

text \<open>Resolving the providers constructs nothing and serves nothing.\<close>

lemma resolve_clients:
  "clients (events (snd (resolveProviders en fl w))) = clients (events w)"
  by (auto simp: provider_defs db_defs split: option.splits list.splits prod.splits)

lemma resolve_transports:
  "transports (events (snd (resolveProviders en fl w))) = transports (events w)"
  by (auto simp: provider_defs db_defs split: option.splits list.splits prod.splits)

lemma resolve_served:
  "served (events (snd (resolveProviders en fl w))) = served (events w)"
  by (auto simp: provider_defs db_defs split: option.splits list.splits prod.splits)

lemma resolve_explicit:
  "primaryAddr fl \<noteq> [] \<Longrightarrow> NewGoLevelDB en ''light-client-db'' (home fl) = None \<Longrightarrow>
   fst (resolveProviders en fl w) = Inr (primaryAddr fl, flagWitnesses (witnessAddrsJoined fl))"
  by (simp add: resolveProviders_def split: prod.splits option.splits)

text \<open>A run constructs at most one light client: the one \<open>newClient\<close> chooses, once the
  providers are resolved and the trust level is accepted.\<close>

lemma run_clients:
  "clients (events (snd (runProxy en fl (init_world d fs)))) =
     (case fst (resolveProviders en fl (emit (Logger_Info ''Creating client...'') (init_world d fs))) of
        Inl e \<Rightarrow> []
      | Inr (p, ws) \<Rightarrow>
          (case NewFraction (trustLevelStr fl) of
             Inl e \<Rightarrow> []
           | Inr lvl \<Rightarrow> [newClient fl lvl p ws]))"
proof -
  let ?w = "emit (Logger_Info ''Creating client...'') (init_world d fs)"
  have "clients (events (snd (resolveProviders en fl ?w))) = []"
    by (simp add: resolve_clients) (simp add: emit_def init_world_def)
  then show ?thesis
    by (cases "resolveProviders en fl ?w")
       (auto simp: runProxy_def emit_def Let_def split: sum.splits option.splits)
qed

lemma newClient_fresh:
  "is_fresh (newClient fl lvl p ws) = (0 <s trustedHeight fl \<and> trustedHash fl \<noteq> [])"
  by (simp add: newClient_def)

lemma newClient_resume:
  "is_resume (newClient fl lvl p ws) = (\<not> (0 <s trustedHeight fl \<and> trustedHash fl \<noteq> []))"
  by (simp add: newClient_def)

subsection \<open>The bootstrap mode\<close>

text \<open>C2. A run makes at most one constructor call. Whatever the database holds and
  whatever its operations answer, that call is the fresh constructor
  (\<open>light.NewHTTPClient\<close>) exactly when the trusted height is positive and the trusted
  hash is not empty, and the constructor from the trusted store in every other case
  (so neither a height alone nor a hash alone selects the fresh one). When a primary is
  given, the database opens and the trust level is accepted, the call is made, whatever
  the database holds.\<close>

theorem C2_bootstrap_mode:
  "length (clients (events (snd (runProxy en fl (init_world d fs))))) \<le> 1 \<and>
   (\<forall>c \<in> set (clients (events (snd (runProxy en fl (init_world d fs))))).
      is_fresh c = (0 <s trustedHeight fl \<and> trustedHash fl \<noteq> []) \<and>
      is_resume c = (\<not> (0 <s trustedHeight fl \<and> trustedHash fl \<noteq> []))) \<and>
   (primaryAddr fl \<noteq> [] \<and> NewGoLevelDB en ''light-client-db'' (home fl) = None \<and>
    NewFraction (trustLevelStr fl) = Inr lvl \<longrightarrow>
      length (clients (events (snd (runProxy en fl (init_world d fs))))) = 1)"
proof (intro conjI impI ballI)
  show "length (clients (events (snd (runProxy en fl (init_world d fs))))) \<le> 1"
    by (simp add: run_clients split: sum.splits prod.splits)
next
  fix c assume "c \<in> set (clients (events (snd (runProxy en fl (init_world d fs)))))"
  then obtain lvl p ws where c: "c = newClient fl lvl p ws"
    by (auto simp: run_clients split: sum.splits prod.splits)
  show "is_fresh c = (0 <s trustedHeight fl \<and> trustedHash fl \<noteq> [])"
    by (simp add: c newClient_fresh)
  show "is_resume c = (\<not> (0 <s trustedHeight fl \<and> trustedHash fl \<noteq> []))"
    by (simp add: c newClient_resume)
next
  assume "primaryAddr fl \<noteq> [] \<and> NewGoLevelDB en ''light-client-db'' (home fl) = None \<and>
    NewFraction (trustLevelStr fl) = Inr lvl"
  then show "length (clients (events (snd (runProxy en fl (init_world d fs))))) = 1"
    by (simp add: run_clients resolve_explicit)
qed

theorem C2_bootstrap_mode_witness:
  "primaryAddr fresh_flags \<noteq> [] \<and>
   NewGoLevelDB good_env ''light-client-db'' (home fresh_flags) = None \<and>
   NewFraction (trustLevelStr fresh_flags) = Inr \<lparr>Numerator = 1, Denominator = 3\<rparr> \<and>
   0 <s trustedHeight fresh_flags \<and> trustedHash fresh_flags \<noteq> [] \<and>
   length (clients (events (snd (runProxy good_env fresh_flags (init_world Map.empty []))))) = 1 \<and>
   list_all is_fresh (clients (events (snd (runProxy good_env fresh_flags (init_world Map.empty [])))))"
proof -
  have h: "primaryAddr fresh_flags \<noteq> [] \<and>
      NewGoLevelDB good_env ''light-client-db'' (home fresh_flags) = None \<and>
      NewFraction (trustLevelStr fresh_flags) = Inr \<lparr>Numerator = 1, Denominator = 3\<rparr>"
    by (simp add: fresh_flags_def eval_defs)
  have c: "0 <s trustedHeight fresh_flags \<and> trustedHash fresh_flags \<noteq> []"
    by (simp add: fresh_flags_def default_flags_def word_sless_alt)
  from C2_bootstrap_mode [of good_env fresh_flags Map.empty "[]" "\<lparr>Numerator = 1, Denominator = 3\<rparr>"] h c
  show ?thesis
    by (simp add: list_all_iff)
qed

subsection \<open>Runs that stop early\<close>

lemma run_transports_resolve_fail:
  "transports (events (snd (resolveProviders en fl (emit (Logger_Info ''Creating client...'') (init_world d fs))))) = []"
  by (simp add: resolve_transports) (simp add: emit_def init_world_def)

lemma run_served_resolve_fail:
  "served (events (snd (resolveProviders en fl (emit (Logger_Info ''Creating client...'') (init_world d fs))))) = []"
  by (simp add: resolve_served) (simp add: emit_def init_world_def)

text \<open>A run that stops at the providers or at the trust level has constructed no light
  client and no transport client and has served nothing.\<close>

lemma run_early:
  assumes "fst (resolveProviders en fl (emit (Logger_Info ''Creating client...'') (init_world d fs))) = Inl e
       \<or> NewFraction (trustLevelStr fl) = Inl e'"
  shows "clients (events (snd (runProxy en fl (init_world d fs)))) = [] \<and>
         transports (events (snd (runProxy en fl (init_world d fs)))) = [] \<and>
         served (events (snd (runProxy en fl (init_world d fs)))) = []"
proof -
  let ?w = "emit (Logger_Info ''Creating client...'') (init_world d fs)"
  obtain r w1 where r: "resolveProviders en fl ?w = (r, w1)"
    by (cases "resolveProviders en fl ?w")
  have ev: "transports (events w1) = []" "served (events w1) = []"
    using run_transports_resolve_fail [of en fl d fs] run_served_resolve_fail [of en fl d fs]
    by (simp_all add: r)
  have "clients (events (snd (runProxy en fl (init_world d fs)))) = []"
    using assms by (auto simp: run_clients r split: sum.splits prod.splits)
  moreover have "events (snd (runProxy en fl (init_world d fs))) = events w1"
    using assms by (auto simp: runProxy_def r split: sum.splits prod.splits)
  ultimately show ?thesis using ev by simp
qed

text \<open>The error a run returns, step by step.\<close>

lemma run_result_early:
  "fst (runProxy en fl (init_world d fs)) =
     (case fst (resolveProviders en fl (emit (Logger_Info ''Creating client...'') (init_world d fs))) of
        Inl e \<Rightarrow> Some e
      | Inr pw \<Rightarrow>
         (case NewFraction (trustLevelStr fl) of
            Inl e \<Rightarrow> Some (CantParseTrustLevel e)
          | Inr lvl \<Rightarrow>
             (case light_err en (newClient fl lvl (fst pw) (snd pw)) of
                Some e \<Rightarrow> Some e
              | None \<Rightarrow>
                 (case rpchttp_err en (fst pw) ''/websocket'' of
                    Some e \<Rightarrow> Some (HttpClientFor (fst pw) e)
                  | None \<Rightarrow> None))))"
  by (cases "resolveProviders en fl (emit (Logger_Info ''Creating client...'') (init_world d fs))")
     (auto simp: runProxy_def Let_def split: sum.splits prod.splits option.splits)

lemma resolve_missing:
  assumes "primaryAddr fl = []" and "d ''p'' = None"
  shows "\<exists>e. fst (resolveProviders en fl (emit ev (init_world d fs))) = Inl e"
  using assms
  by (auto simp: provider_defs db_defs split: option.splits list.splits prod.splits)

lemma resolve_missing_ok:
  assumes "primaryAddr fl = []" and "d ''p'' = None"
    and "NewGoLevelDB en ''light-client-db'' (home fl) = None"
    and "list_all (\<lambda>f. f = None) (take 2 fs)"
  shows "fst (resolveProviders en fl (emit ev (init_world d fs))) = Inl NoPrimaryAddress"
  using assms
  by (auto simp: provider_defs db_defs split: option.splits list.splits prod.splits)

subsection \<open>No primary\<close>

text \<open>C3. When no primary is given on the command line and the database has no entry
  under \<open>p\<close>, the run returns an error and has constructed no light client, no
  transport client and served no proxy (so no listener was bound). When the database
  opens and its two reads succeed, the error is the missing-primary error.\<close>

theorem C3_missing_primary:
  assumes "primaryAddr fl = []" and "d ''p'' = None"
  shows "fst (runProxy en fl (init_world d fs)) \<noteq> None \<and>
         clients (events (snd (runProxy en fl (init_world d fs)))) = [] \<and>
         transports (events (snd (runProxy en fl (init_world d fs)))) = [] \<and>
         served (events (snd (runProxy en fl (init_world d fs)))) = [] \<and>
         (NewGoLevelDB en ''light-client-db'' (home fl) = None \<and>
          list_all (\<lambda>f. f = None) (take 2 fs) \<longrightarrow>
            fst (runProxy en fl (init_world d fs)) = Some NoPrimaryAddress)"
proof -
  obtain e where e: "fst (resolveProviders en fl (emit (Logger_Info ''Creating client...'') (init_world d fs))) = Inl e"
    using resolve_missing [where fl = fl and d = d and en = en and fs = fs] assms by blast
  have "fst (runProxy en fl (init_world d fs)) = Some e"
    by (simp add: run_result_early e)
  moreover have "NewGoLevelDB en ''light-client-db'' (home fl) = None \<and>
          list_all (\<lambda>f. f = None) (take 2 fs) \<Longrightarrow> e = NoPrimaryAddress"
    using resolve_missing_ok [where fl = fl and d = d and en = en and fs = fs] assms e by simp
  ultimately show ?thesis
    using run_early [of en fl d fs e] e by auto
qed

theorem C3_missing_primary_witness:
  "primaryAddr default_flags = [] \<and> (Map.empty :: string \<rightharpoonup> string) ''p'' = None \<and>
   NewGoLevelDB good_env ''light-client-db'' (home default_flags) = None \<and>
   fst (runProxy good_env default_flags (init_world Map.empty [])) = Some NoPrimaryAddress \<and>
   clients (events (snd (runProxy good_env default_flags (init_world Map.empty [])))) = [] \<and>
   served (events (snd (runProxy good_env default_flags (init_world Map.empty [])))) = []"
proof -
  have h1: "primaryAddr default_flags = []" by (simp add: default_flags_def)
  have h2: "(Map.empty :: string \<rightharpoonup> string) ''p'' = None" by simp
  have h3: "NewGoLevelDB good_env ''light-client-db'' (home default_flags) = None"
    by (simp add: good_env_def)
  from C3_missing_primary [where fl = default_flags and d = Map.empty and en = good_env and fs = "[]"] h1 h3
  show ?thesis by simp
qed

subsection \<open>The trust level is checked before any network action\<close>

text \<open>C5. When the trust-level string does not parse as a fraction, or parses to a
  value outside \<open>[1/3, 1]\<close>, \<open>NewFraction\<close> returns an error \<open>e\<close>; the run then
  returns an error, which is the trust-level error wrapping \<open>e\<close> unless resolving the
  providers has already failed (in particular it is the trust-level error whenever a
  primary is given and the database opens); and no light client, no transport client
  and no proxy server has been constructed or started.\<close>

theorem C5_invalid_trust_level:
  assumes "parse_fraction (trustLevelStr fl) = None \<or>
           (\<exists>fr. parse_fraction (trustLevelStr fl) = Some fr \<and> \<not> in_trust_range fr)"
  shows "\<exists>e. NewFraction (trustLevelStr fl) = Inl e \<and>
           fst (runProxy en fl (init_world d fs)) =
             (case fst (resolveProviders en fl (emit (Logger_Info ''Creating client...'') (init_world d fs))) of
                Inl e0 \<Rightarrow> Some e0
              | Inr pw \<Rightarrow> Some (CantParseTrustLevel e)) \<and>
           (primaryAddr fl \<noteq> [] \<and> NewGoLevelDB en ''light-client-db'' (home fl) = None \<longrightarrow>
              fst (runProxy en fl (init_world d fs)) = Some (CantParseTrustLevel e)) \<and>
           clients (events (snd (runProxy en fl (init_world d fs)))) = [] \<and>
           transports (events (snd (runProxy en fl (init_world d fs)))) = [] \<and>
           served (events (snd (runProxy en fl (init_world d fs)))) = []"
proof -
  obtain e where e: "NewFraction (trustLevelStr fl) = Inl e"
    using assms by (auto simp: NewFraction_def)
  have r: "fst (runProxy en fl (init_world d fs)) =
             (case fst (resolveProviders en fl (emit (Logger_Info ''Creating client...'') (init_world d fs))) of
                Inl e0 \<Rightarrow> Some e0
              | Inr pw \<Rightarrow> Some (CantParseTrustLevel e))"
    by (simp add: run_result_early e split: sum.splits)
  have x: "primaryAddr fl \<noteq> [] \<and> NewGoLevelDB en ''light-client-db'' (home fl) = None \<longrightarrow>
              fst (runProxy en fl (init_world d fs)) = Some (CantParseTrustLevel e)"
    by (simp add: r resolve_explicit)
  show ?thesis
    using e r x run_early [of en fl d fs e e] by blast
qed

theorem C5_invalid_trust_level_witness:
  "parse_fraction (trustLevelStr (fresh_flags\<lparr>trustLevelStr := ''1/4''\<rparr>)) = Some \<lparr>Numerator = 1, Denominator = 4\<rparr> \<and>
   \<not> in_trust_range \<lparr>Numerator = 1, Denominator = 4\<rparr> \<and>
   fst (runProxy good_env (fresh_flags\<lparr>trustLevelStr := ''1/4''\<rparr>) (init_world Map.empty [])) =
     Some (CantParseTrustLevel (ErrExternal ''fraction: outside [1/3, 1]'')) \<and>
   clients (events (snd (runProxy good_env (fresh_flags\<lparr>trustLevelStr := ''1/4''\<rparr>) (init_world Map.empty [])))) = [] \<and>
   transports (events (snd (runProxy good_env (fresh_flags\<lparr>trustLevelStr := ''1/4''\<rparr>) (init_world Map.empty [])))) = []"
proof -
  let ?fl = "fresh_flags\<lparr>trustLevelStr := ''1/4''\<rparr>"
  have p: "parse_fraction (trustLevelStr ?fl) = Some \<lparr>Numerator = 1, Denominator = 4\<rparr>"
    by (simp add: parse_fraction_def parse_digits_def is_digit_def)
  have n: "\<not> in_trust_range \<lparr>Numerator = 1, Denominator = 4\<rparr>"
    by (simp add: in_trust_range_def)
  have h: "parse_fraction (trustLevelStr ?fl) = None \<or>
           (\<exists>fr. parse_fraction (trustLevelStr ?fl) = Some fr \<and> \<not> in_trust_range fr)"
    using p n by simp
  have f: "NewFraction (trustLevelStr ?fl) = Inl (ErrExternal ''fraction: outside [1/3, 1]'')"
    using p n by (simp add: NewFraction_def)
  have g: "primaryAddr ?fl \<noteq> [] \<and> NewGoLevelDB good_env ''light-client-db'' (home ?fl) = None"
    by (simp add: fresh_flags_def default_flags_def good_env_def)
  from C5_invalid_trust_level [where fl = ?fl and en = good_env and d = Map.empty and fs = "[]"] h f g p n
  show ?thesis by auto
qed

subsection \<open>The sequential flag\<close>

text \<open>C1. The flag \<open>--sequential\<close> is documented as selecting sequential verification,
  and the spec asks that it does so on the fresh and on the resume path alike. The code
  does so on the fresh path only. Evaluated on four runs with a primary given and all
  collaborators succeeding: without a trusted hash (the resume path)
  \<open>sequential = true\<close> builds the client with skipping verification and
  \<open>sequential = false\<close> with sequential verification; with a trusted height and hash
  (the fresh path) the flag selects what it says.\<close>

theorem C1_resume_inverts_sequential:
  "map options (clients (events (snd (runProxy good_env (resume_flags\<lparr>sequential := True\<rparr>)
      (init_world Map.empty [])))))
     = [[Logger, SkippingVerification \<lparr>Numerator = 1, Denominator = 3\<rparr>]] \<and>
   map options (clients (events (snd (runProxy good_env (resume_flags\<lparr>sequential := False\<rparr>)
      (init_world Map.empty [])))))
     = [[Logger, SequentialVerification]] \<and>
   map options (clients (events (snd (runProxy good_env (fresh_flags\<lparr>sequential := True\<rparr>)
      (init_world Map.empty [])))))
     = [[Logger, SequentialVerification]] \<and>
   map options (clients (events (snd (runProxy good_env (fresh_flags\<lparr>sequential := False\<rparr>)
      (init_world Map.empty [])))))
     = [[Logger, SkippingVerification \<lparr>Numerator = 1, Denominator = 3\<rparr>]]"
  by (simp add: eval_defs resume_flags_def fresh_flags_def word_sless_alt)

subsection \<open>Saving and loading the providers\<close>

text \<open>C4. Saving a primary with an empty witness sequence and loading it again does not
  return the empty sequence. Evaluated: after \<open>saveProviders\<close> with primary
  \<open>http://A\<close> and the empty witnesses string (which the command line reads as no
  witnesses), \<open>checkForExistingProviders\<close> returns the one-element sequence holding
  the empty string. On whole runs: a first run with \<open>-p http://A\<close> builds its client
  with no witnesses, and a second run without \<open>-p\<close> on the database the first one
  left builds its client with one witness, the empty string.\<close>

theorem C4_empty_witnesses_round_trip:
  "fst (checkForExistingProviders (snd (saveProviders ''http://A'' [] (init_world Map.empty []))))
     = (''http://A'', [''''], None) \<and>
   flagWitnesses [] = [] \<and>
   map witnesses (clients (events (snd (runProxy good_env resume_flags (init_world Map.empty [])))))
     = [[]] \<and>
   map witnesses (clients (events (snd (runProxy good_env default_flags
       (init_world (db_data (snd (runProxy good_env resume_flags (init_world Map.empty [])))) [])))))
     = [['''']]"
  by (simp add: eval_defs resume_flags_def word_sless_alt)

text \<open>With a database whose operations succeed, loading after saving returns the
  primary and the pieces of the witnesses string.\<close>

lemma check_after_save:
  assumes "db_faults w = []"
  shows "fst (checkForExistingProviders (snd (saveProviders p joined w))) =
           (p, strings_Split joined (CHR '',''), None)"
  using assms
  by (simp add: checkForExistingProviders_def saveProviders_def db_Get_def db_Set_def
      next_fault_def emit_def)

text \<open>X1. For a witnesses string that is not empty, and a database whose operations
  succeed, saving and then loading returns the primary and exactly the witness sequence
  that the command line gives for that string.\<close>

theorem X1_round_trip_nonempty:
  assumes "db_faults w = []" and "joined \<noteq> []"
  shows "fst (checkForExistingProviders (snd (saveProviders p joined w))) =
           (p, flagWitnesses joined, None)"
  using assms by (simp add: check_after_save flagWitnesses_def)

theorem X1_round_trip_nonempty_witness:
  "fst (checkForExistingProviders (snd (saveProviders ''http://B'' ''http://C,http://D''
      (init_world Map.empty [])))) = (''http://B'', [''http://C'', ''http://D''], None)"
  using X1_round_trip_nonempty [of "init_world Map.empty []" "''http://C,http://D''" "''http://B''"]
  by (simp add: init_world_def flagWitnesses_def)

subsection \<open>Saving twice\<close>

lemma save_data:
  "fst (saveProviders p ws w) = None \<Longrightarrow>
   db_data (snd (saveProviders p ws w)) = (db_data w)(''p'' \<mapsto> p, ''w'' \<mapsto> ws)"
  by (auto simp: saveProviders_def db_Set_def next_fault_def emit_def
      split: list.splits option.splits)

lemma save_no_fault: "db_faults w = [] \<Longrightarrow> fst (saveProviders p ws w) = None"
  by (simp add: saveProviders_def db_Set_def next_fault_def emit_def)

lemma save_again:
  "db_data w ''p'' = Some p \<Longrightarrow> db_data w ''w'' = Some ws \<Longrightarrow>
   db_data (snd (saveProviders p ws w)) = db_data w"
  by (auto simp: saveProviders_def db_Set_def next_fault_def emit_def fun_upd_idem
      split: list.splits option.splits)

text \<open>C9. When the first \<open>saveProviders\<close> succeeds (as it does on a database with no
  failing operation), a second \<open>saveProviders\<close> with the same primary and witnesses
  string leaves the content of the database as the first one left it, whether the
  second one's writes succeed or fail; that content holds the primary under \<open>p\<close> and
  the witnesses string under \<open>w\<close>.\<close>

theorem C9_save_idempotent:
  assumes "db_faults w = [] \<or> fst (saveProviders p ws w) = None"
  shows "db_data (snd (saveProviders p ws (snd (saveProviders p ws w)))) =
           db_data (snd (saveProviders p ws w)) \<and>
         db_data (snd (saveProviders p ws w)) ''p'' = Some p \<and>
         db_data (snd (saveProviders p ws w)) ''w'' = Some ws"
proof -
  have ok: "fst (saveProviders p ws w) = None"
    using assms save_no_fault by blast
  have d: "db_data (snd (saveProviders p ws w)) = (db_data w)(''p'' \<mapsto> p, ''w'' \<mapsto> ws)"
    by (rule save_data [OF ok])
  have "db_data (snd (saveProviders p ws w)) ''p'' = Some p"
       "db_data (snd (saveProviders p ws w)) ''w'' = Some ws"
    by (simp_all add: d)
  then show ?thesis by (simp add: save_again)
qed

theorem C9_save_idempotent_witness:
  "db_faults (init_world Map.empty [None, None, Some (ErrExternal ''disk full'')]) \<noteq> [] \<and>
   fst (saveProviders ''http://A'' ''http://B,http://C''
         (init_world Map.empty [None, None, Some (ErrExternal ''disk full'')])) = None \<and>
   fst (saveProviders ''http://A'' ''http://B,http://C''
         (snd (saveProviders ''http://A'' ''http://B,http://C''
           (init_world Map.empty [None, None, Some (ErrExternal ''disk full'')]))))
     = Some (FailedToSavePrimary (ErrExternal ''disk full'')) \<and>
   db_data (snd (saveProviders ''http://A'' ''http://B,http://C''
         (snd (saveProviders ''http://A'' ''http://B,http://C''
           (init_world Map.empty [None, None, Some (ErrExternal ''disk full'')]))))) ''w''
     = Some ''http://B,http://C''"
proof -
  let ?w = "init_world Map.empty [None, None, Some (ErrExternal ''disk full'')]"
  have h: "fst (saveProviders ''http://A'' ''http://B,http://C'' ?w) = None"
    by (simp add: saveProviders_def db_Set_def next_fault_def emit_def init_world_def)
  have s: "fst (saveProviders ''http://A'' ''http://B,http://C''
         (snd (saveProviders ''http://A'' ''http://B,http://C'' ?w)))
     = Some (FailedToSavePrimary (ErrExternal ''disk full''))"
    by (simp add: saveProviders_def db_Set_def next_fault_def emit_def init_world_def)
  from C9_save_idempotent [of ?w "''http://A''" "''http://B,http://C''"] h s
  show ?thesis by (simp add: init_world_def)
qed

subsection \<open>No witnesses, loaded and given\<close>

lemma check_empty_witnesses:
  assumes "d ''w'' = None \<or> d ''w'' = Some []" and "list_all (\<lambda>f. f = None) (take 2 fs)"
  shows "fst (checkForExistingProviders (emit ev (init_world d fs))) =
           (case d ''p'' of None \<Rightarrow> [] | Some v \<Rightarrow> v, [''''], None)"
  using assms
  by (auto simp: checkForExistingProviders_def db_defs split: option.splits list.splits)

lemma check_empty_witnesses':
  assumes "d ''w'' = None \<or> d ''w'' = Some []" and "list_all (\<lambda>f. f = None) (take 2 fs)"
  shows "fst (checkForExistingProviders (init_world d fs)) =
           (case d ''p'' of None \<Rightarrow> [] | Some v \<Rightarrow> v, [''''], None)"
  using assms
  by (auto simp: checkForExistingProviders_def db_defs split: option.splits list.splits)

lemma resolve_load:
  assumes "primaryAddr fl = []"
    and "fst (resolveProviders en fl w) = Inr (p, ws)"
  shows "ws = fst (snd (fst (checkForExistingProviders w)))"
  using assms
  by (auto simp: resolveProviders_def split: option.splits prod.splits if_splits)

lemma newClient_witnesses: "witnesses (newClient fl lvl p ws) = ws"
  by (simp add: newClient_def)

lemma run_clients_mem:
  assumes "c \<in> set (clients (events (snd (runProxy en fl (init_world d fs)))))"
  shows "\<exists>lvl p ws.
           fst (resolveProviders en fl (emit (Logger_Info ''Creating client...'') (init_world d fs)))
             = Inr (p, ws) \<and>
           NewFraction (trustLevelStr fl) = Inr lvl \<and> c = newClient fl lvl p ws"
  using assms
  by (cases "fst (resolveProviders en fl (emit (Logger_Info ''Creating client...'') (init_world d fs)))";
      cases "NewFraction (trustLevelStr fl)")
     (auto simp: run_clients)

text \<open>C10. When the entry \<open>w\<close> of the database is absent or holds the empty string
  (and the two reads succeed), \<open>checkForExistingProviders\<close> returns the witness
  sequence with exactly one element, the empty string, while an empty witnesses flag
  gives the empty sequence. In a run: without a primary flag every light client built
  gets one witness, the empty string; with a primary flag and an empty witnesses flag
  it gets no witnesses.\<close>

theorem C10_empty_witnesses_differ:
  assumes "d ''w'' = None \<or> d ''w'' = Some []" and "list_all (\<lambda>f. f = None) (take 2 fs)"
  shows "fst (checkForExistingProviders (init_world d fs)) =
           (case d ''p'' of None \<Rightarrow> [] | Some v \<Rightarrow> v, [''''], None) \<and>
         flagWitnesses [] = [] \<and>
         (primaryAddr fl = [] \<longrightarrow>
            (\<forall>c \<in> set (clients (events (snd (runProxy en fl (init_world d fs))))).
               witnesses c = [''''])) \<and>
         (primaryAddr fl \<noteq> [] \<and> witnessAddrsJoined fl = [] \<longrightarrow>
            (\<forall>c \<in> set (clients (events (snd (runProxy en fl (init_world d fs))))).
               witnesses c = []))"
proof (intro conjI impI ballI)
  show "fst (checkForExistingProviders (init_world d fs)) =
           (case d ''p'' of None \<Rightarrow> [] | Some v \<Rightarrow> v, [''''], None)"
    using check_empty_witnesses' [where d = d and fs = fs] assms by blast
  show "flagWitnesses [] = []" by (simp add: flagWitnesses_def)
next
  fix c
  assume p: "primaryAddr fl = []"
    and c: "c \<in> set (clients (events (snd (runProxy en fl (init_world d fs)))))"
  let ?w = "emit (Logger_Info ''Creating client...'') (init_world d fs)"
  from c obtain lvl p' ws where r: "fst (resolveProviders en fl ?w) = Inr (p', ws)"
    and c': "c = newClient fl lvl p' ws"
    using run_clients_mem [of c en fl d fs] by blast
  have "ws = fst (snd (fst (checkForExistingProviders ?w)))"
    by (rule resolve_load [OF p r])
  then have "ws = ['''']"
    using check_empty_witnesses [where d = d and fs = fs] assms by simp
  then show "witnesses c = ['''']" by (simp add: c' newClient_witnesses)
next
  fix c
  assume p: "primaryAddr fl \<noteq> [] \<and> witnessAddrsJoined fl = []"
    and c: "c \<in> set (clients (events (snd (runProxy en fl (init_world d fs)))))"
  let ?w = "emit (Logger_Info ''Creating client...'') (init_world d fs)"
  from c obtain lvl p' ws where r: "fst (resolveProviders en fl ?w) = Inr (p', ws)"
    and c': "c = newClient fl lvl p' ws"
    using run_clients_mem [of c en fl d fs] by blast
  have "ws = []"
    using r p by (auto simp: resolveProviders_def flagWitnesses_def split: option.splits prod.splits)
  then show "witnesses c = []" by (simp add: c' newClient_witnesses)
qed


theorem C10_empty_witnesses_differ_witness:
  "([''p'' \<mapsto> ''http://A''] :: string \<rightharpoonup> string) ''w'' = None \<and>
   primaryAddr default_flags = [] \<and>
   fst (checkForExistingProviders (init_world [''p'' \<mapsto> ''http://A''] []))
     = (''http://A'', [''''], None) \<and>
   flagWitnesses [] = [] \<and>
   map witnesses (clients (events (snd (runProxy good_env default_flags
       (init_world [''p'' \<mapsto> ''http://A''] []))))) = [['''']]"
proof -
  have h: "([''p'' \<mapsto> ''http://A''] :: string \<rightharpoonup> string) ''w'' = None" by simp
  have f: "list_all (\<lambda>f. f = None) (take 2 ([] :: err option list))" by simp
  have p: "primaryAddr default_flags = []" by (simp add: default_flags_def)
  have r: "map witnesses (clients (events (snd (runProxy good_env default_flags
       (init_world [''p'' \<mapsto> ''http://A''] []))))) = [['''']]"
    by (simp add: eval_defs word_sless_alt)
  from C10_empty_witnesses_differ [where d = "[''p'' \<mapsto> ''http://A'']" and fs = "[]"
      and fl = default_flags and en = good_env] h f p r
  show ?thesis by simp
qed

subsection \<open>The end of serving\<close>

text \<open>The proxy a run serves, if it gets that far.\<close>

lemma run_served:
  "served (events (snd (runProxy en fl (init_world d fs)))) =
     (case fst (resolveProviders en fl (emit (Logger_Info ''Creating client...'') (init_world d fs))) of
        Inl e \<Rightarrow> []
      | Inr (p, ws) \<Rightarrow>
          (case NewFraction (trustLevelStr fl) of
             Inl e \<Rightarrow> []
           | Inr lvl \<Rightarrow>
              (case light_err en (newClient fl lvl p ws) of
                 Some e \<Rightarrow> []
               | None \<Rightarrow>
                  (case rpchttp_err en p ''/websocket'' of
                     Some e \<Rightarrow> []
                   | None \<Rightarrow>
                      [\<lparr>Addr = listenAddr fl, Config = serverConfig en fl,
                        Client_rpc = (p, ''/websocket''),
                        Client_light = newClient fl lvl p ws\<rparr>]))))"
proof -
  let ?w = "emit (Logger_Info ''Creating client...'') (init_world d fs)"
  have "served (events (snd (resolveProviders en fl ?w))) = []"
    by (simp add: resolve_served) (simp add: emit_def init_world_def)
  then show ?thesis
    by (cases "resolveProviders en fl ?w")
       (auto simp: runProxy_def emit_def Let_def split: sum.splits option.splits)
qed

text \<open>A run that served a proxy returns \<open>nil\<close>; the proxy has the configuration of
  \<open>serverConfig\<close>; serving is the last action but for the log line of an error.\<close>

lemma run_serving:
  assumes "px \<in> set (served (events (snd (runProxy en fl (init_world d fs)))))"
  shows "fst (runProxy en fl (init_world d fs)) = None \<and>
         Config px = serverConfig en fl \<and>
         (\<exists>pre. events (snd (runProxy en fl (init_world d fs))) =
            pre @ ListenAndServe px #
              (if ListenAndServe_err en px = Some ErrServerClosed then []
               else [Logger_Error ''proxy ListenAndServe'' (ListenAndServe_err en px)]))"
proof -
  let ?w = "emit (Logger_Info ''Creating client...'') (init_world d fs)"
  obtain r w1 where r: "resolveProviders en fl ?w = (r, w1)"
    by (cases "resolveProviders en fl ?w")
  have ev: "served (events w1) = []"
    using resolve_served [of en fl ?w] by (simp add: r) (simp add: emit_def init_world_def)
  have run: "runProxy en fl (init_world d fs) =
     (case r of
        Inl e \<Rightarrow> (Some e, w1)
      | Inr (p, ws) \<Rightarrow>
          (case NewFraction (trustLevelStr fl) of
             Inl e \<Rightarrow> (Some (CantParseTrustLevel e), w1)
           | Inr trustLevel \<Rightarrow>
               (let c = newClient fl trustLevel p ws;
                    w2 = emit (Light_New c) w1
                in case light_err en c of
                     Some e \<Rightarrow> (Some e, w2)
                   | None \<Rightarrow>
                       (let w3 = emit (Rpchttp_New p ''/websocket'') w2
                        in case rpchttp_err en p ''/websocket'' of
                             Some e \<Rightarrow> (Some (HttpClientFor p e), w3)
                           | None \<Rightarrow>
                               (let px = \<lparr>Addr = listenAddr fl, Config = serverConfig en fl,
                                          Client_rpc = (p, ''/websocket''), Client_light = c\<rparr>;
                                    w4 = emit TrapSignal w3;
                                    w5 = emit (Logger_Info ''Starting proxy...'') w4;
                                    w6 = emit (ListenAndServe px) w5
                                in if ListenAndServe_err en px \<noteq> Some ErrServerClosed
                                   then (None, emit (Logger_Error ''proxy ListenAndServe''
                                                      (ListenAndServe_err en px)) w6)
                                   else (None, w6))))))"
    by (simp add: runProxy_def r)
  show ?thesis
    using assms ev unfolding run
    by (cases r; cases "NewFraction (trustLevelStr fl)")
       (auto simp: emit_def Let_def split: option.splits prod.splits if_splits)
qed

text \<open>C6, as the code has it. When serving has ended, the run returns \<open>nil\<close> in every
  case. If serving ended with \<open>http.ErrServerClosed\<close>, nothing is logged after it; for
  every other outcome the error is logged (\<open>proxy ListenAndServe\<close>), and the run still
  returns \<open>nil\<close>: the error is not returned to the caller.\<close>

theorem C6_serve_end:
  assumes "px \<in> set (served (events (snd (runProxy en fl (init_world d fs)))))"
  shows "fst (runProxy en fl (init_world d fs)) = None \<and>
         (\<exists>pre. events (snd (runProxy en fl (init_world d fs))) =
            pre @ ListenAndServe px #
              (if ListenAndServe_err en px = Some ErrServerClosed then []
               else [Logger_Error ''proxy ListenAndServe'' (ListenAndServe_err en px)]))"
  using run_serving [OF assms] by blast

text \<open>C6 as stated fails: serving ends with a bind error, the run serves the proxy of a
  fresh start, and returns \<open>nil\<close>, not that error.\<close>

theorem C6_serve_error_counterexample:
  "served (events (snd (runProxy bind_env fresh_flags (init_world Map.empty [])))) = [fresh_proxy] \<and>
   ListenAndServe_err bind_env fresh_proxy
     = Some (ErrExternal ''listen tcp: address already in use'') \<and>
   fst (runProxy bind_env fresh_flags (init_world Map.empty [])) = None \<and>
   fst (runProxy bind_env fresh_flags (init_world Map.empty []))
     \<noteq> Some (ErrExternal ''listen tcp: address already in use'')"
  by (simp add: eval_defs bind_env_def fresh_flags_def fresh_proxy_def word_sless_alt)

theorem C6_serve_end_witness:
  "fresh_proxy \<in> set (served (events (snd (runProxy bind_env fresh_flags (init_world Map.empty []))))) \<and>
   ListenAndServe_err bind_env fresh_proxy \<noteq> Some ErrServerClosed \<and>
   fst (runProxy bind_env fresh_flags (init_world Map.empty [])) = None \<and>
   (\<exists>pre. events (snd (runProxy bind_env fresh_flags (init_world Map.empty []))) =
      pre @ [ListenAndServe fresh_proxy,
             Logger_Error ''proxy ListenAndServe''
               (Some (ErrExternal ''listen tcp: address already in use''))])"
proof -
  have h: "fresh_proxy \<in> set (served (events (snd (runProxy bind_env fresh_flags (init_world Map.empty [])))))"
    by (simp add: eval_defs bind_env_def fresh_flags_def fresh_proxy_def word_sless_alt)
  have e: "ListenAndServe_err bind_env fresh_proxy =
      Some (ErrExternal ''listen tcp: address already in use'')"
    by (simp add: bind_env_def)
  from C6_serve_end [OF h] h e
  show ?thesis by simp
qed

subsection \<open>The write timeout\<close>

lemma run_served_config:
  assumes "px \<in> set (served (events (snd (runProxy en fl (init_world d fs)))))"
  shows "Config px = serverConfig en fl"
  using run_serving [OF assms] by blast

text \<open>Adding one second to a duration, when the sum fits into an \<open>int64\<close>.\<close>

lemma sint_add_Second:
  fixes t :: Duration
  assumes "sint t + 1000000000 < 2 ^ 63"
  shows "sint (t + 1 * Second) = sint t + 1000000000"
proof -
  have s: "sint Second = 1000000000" by (simp add: Second_def)
  have lo: "- (2 ^ 63) \<le> sint t"
    using sint_ge [of t] by simp
  have "sint (t + 1 * Second) = signed_take_bit 63 (sint t + sint Second)"
    by (simp add: sint_word_ariths)
  also have "\<dots> = sint t + 1000000000"
    using assms lo by (simp add: s signed_take_bit_int_eq_self)
  finally show ?thesis .
qed

text \<open>Beyond that bound the sum wraps around and is smaller than the duration.\<close>

lemma sint_add_Second_wraps:
  fixes t :: Duration
  assumes "\<not> sint t + 1000000000 < 2 ^ 63"
  shows "sint (t + 1 * Second) < sint t"
proof -
  have s: "sint Second = 1000000000" by (simp add: Second_def)
  have "sint (t + 1 * Second) = signed_take_bit 63 (sint t + sint Second)"
    by (simp add: sint_word_ariths)
  also have "\<dots> \<le> sint t + sint Second - 2 ^ Suc 63"
    using assms by (intro signed_take_bit_int_less_eq) (simp add: s)
  also have "\<dots> < sint t"
    by (simp add: s)
  finally show ?thesis .
qed

lemma serverConfig_wraps:
  assumes "WriteTimeout (DefaultConfig en) \<le>s RPC_TimeoutBroadcastTxCommit en"
    and "\<not> sint (RPC_TimeoutBroadcastTxCommit en) + 1000000000 < 2 ^ 63"
  shows "WriteTimeout (serverConfig en fl) <s RPC_TimeoutBroadcastTxCommit en"
proof -
  have w: "WriteTimeout (serverConfig en fl) = RPC_TimeoutBroadcastTxCommit en + 1 * Second"
    using assms(1) by (simp add: serverConfig_def)
  show ?thesis
    unfolding w word_sless_alt by (rule sint_add_Second_wraps [OF assms(2)])
qed

lemma resolve_ignores_timeouts:
  "resolveProviders (en\<lparr>DefaultConfig := cfg', RPC_TimeoutBroadcastTxCommit := t'\<rparr>) fl w =
   resolveProviders en fl w"
  by (simp add: resolveProviders_def)

text \<open>C7, with the bound that 64-bit durations need. If the default write timeout is not
  greater than the timeout of \<open>broadcast_tx_commit\<close>, and that timeout plus one second
  does not overflow an \<open>int64\<close>, the server's write timeout becomes that timeout plus
  one second, which exceeds it. If the default write timeout is greater, it is left as
  it is. The proxy a run serves has this configuration, and the error a run returns
  does not depend on the two timeouts: the adjustment never fails.\<close>

theorem C7_write_timeout:
  "(WriteTimeout (DefaultConfig en) \<le>s RPC_TimeoutBroadcastTxCommit en \<and>
    sint (RPC_TimeoutBroadcastTxCommit en) + 1000000000 < 2 ^ 63 \<longrightarrow>
      sint (WriteTimeout (serverConfig en fl)) =
        sint (RPC_TimeoutBroadcastTxCommit en) + 1000000000 \<and>
      RPC_TimeoutBroadcastTxCommit en <s WriteTimeout (serverConfig en fl)) \<and>
   (RPC_TimeoutBroadcastTxCommit en <s WriteTimeout (DefaultConfig en) \<longrightarrow>
      WriteTimeout (serverConfig en fl) = WriteTimeout (DefaultConfig en)) \<and>
   (\<forall>px \<in> set (served (events (snd (runProxy en fl (init_world d fs))))).
      Config px = serverConfig en fl) \<and>
   fst (runProxy (en\<lparr>DefaultConfig := cfg', RPC_TimeoutBroadcastTxCommit := t'\<rparr>) fl
         (init_world d fs)) = fst (runProxy en fl (init_world d fs))"
proof (intro conjI impI ballI)
  assume a: "WriteTimeout (DefaultConfig en) \<le>s RPC_TimeoutBroadcastTxCommit en \<and>
    sint (RPC_TimeoutBroadcastTxCommit en) + 1000000000 < 2 ^ 63"
  then have w: "WriteTimeout (serverConfig en fl) = RPC_TimeoutBroadcastTxCommit en + 1 * Second"
    by (simp add: serverConfig_def)
  show "sint (WriteTimeout (serverConfig en fl)) =
          sint (RPC_TimeoutBroadcastTxCommit en) + 1000000000"
    unfolding w using a by (intro sint_add_Second) simp
  then show "RPC_TimeoutBroadcastTxCommit en <s WriteTimeout (serverConfig en fl)"
    by (simp add: word_sless_alt)
next
  assume "RPC_TimeoutBroadcastTxCommit en <s WriteTimeout (DefaultConfig en)"
  then show "WriteTimeout (serverConfig en fl) = WriteTimeout (DefaultConfig en)"
    by (simp add: serverConfig_def word_sless_alt word_sle_eq)
next
  fix px assume "px \<in> set (served (events (snd (runProxy en fl (init_world d fs)))))"
  then show "Config px = serverConfig en fl" by (rule run_served_config)
next
  show "fst (runProxy (en\<lparr>DefaultConfig := cfg', RPC_TimeoutBroadcastTxCommit := t'\<rparr>) fl
               (init_world d fs)) = fst (runProxy en fl (init_world d fs))"
    by (simp add: run_result_early resolve_ignores_timeouts split: sum.splits option.splits)
qed

text \<open>C7 as stated fails for a timeout within one second of the largest duration: the
  sum wraps around, and the write timeout becomes negative instead of exceeding it.\<close>

theorem C7_write_timeout_counterexample:
  "WriteTimeout (DefaultConfig max_timeout_env) \<le>s RPC_TimeoutBroadcastTxCommit max_timeout_env \<and>
   sint (RPC_TimeoutBroadcastTxCommit max_timeout_env) = 9223372036854775807 \<and>
   sint (WriteTimeout (serverConfig max_timeout_env fresh_flags)) = - 9223372035854775809 \<and>
   \<not> (RPC_TimeoutBroadcastTxCommit max_timeout_env <s
        WriteTimeout (serverConfig max_timeout_env fresh_flags)) \<and>
   map (\<lambda>px. sint (WriteTimeout (Config px)))
     (served (events (snd (runProxy max_timeout_env fresh_flags (init_world Map.empty [])))))
     = [- 9223372035854775809]"
  by (simp add: eval_defs max_timeout_env_def fresh_flags_def word_sless_alt word_sle_eq)

theorem C7_write_timeout_witness:
  "sint (RPC_TimeoutBroadcastTxCommit good_env) + 1000000000 < 2 ^ 63 \<and>
   WriteTimeout (DefaultConfig good_env) \<le>s RPC_TimeoutBroadcastTxCommit good_env \<and>
   sint (WriteTimeout (serverConfig good_env fresh_flags)) = 11000000000 \<and>
   RPC_TimeoutBroadcastTxCommit good_env <s WriteTimeout (serverConfig good_env fresh_flags)"
proof -
  have h: "sint (RPC_TimeoutBroadcastTxCommit good_env) + 1000000000 < 2 ^ 63"
    by (simp add: good_env_def Second_def)
  have l: "WriteTimeout (DefaultConfig good_env) \<le>s RPC_TimeoutBroadcastTxCommit good_env"
    by (simp add: good_env_def)
  have t: "sint (RPC_TimeoutBroadcastTxCommit good_env) = 10000000000"
    by (simp add: good_env_def Second_def)
  from C7_write_timeout [of good_env fresh_flags Map.empty "[]"] h l t
  show ?thesis by simp
qed

subsection \<open>Saving before constructing\<close>

text \<open>What \<open>saveProviders\<close> appends to the events, and what it stores when it succeeds.\<close>

lemma save_events:
  assumes "saveProviders p ws w = (r, w1)"
  shows "\<exists>post. events w1 = events w @ post \<and> clients post = [] \<and>
     (r = None \<longrightarrow>
        DB_Set ''p'' p None \<in> set post \<and> DB_Set ''w'' ws None \<in> set post \<and>
        db_data w1 ''p'' = Some p \<and> db_data w1 ''w'' = Some ws)"
  using assms
  by (auto simp: saveProviders_def db_Set_def next_fault_def emit_def
      split: list.splits option.splits)

lemma resolve_explicit_saved:
  assumes "primaryAddr fl \<noteq> []" and "NewGoLevelDB en ''light-client-db'' (home fl) = None"
  shows "clients (events (snd (resolveProviders en fl (emit (Logger_Info msg) (init_world d fs))))) = [] \<and>
     ((DB_Set ''p'' (primaryAddr fl) None \<in> set (events (snd (resolveProviders en fl (emit (Logger_Info msg) (init_world d fs))))) \<and>
       DB_Set ''w'' (witnessAddrsJoined fl) None \<in> set (events (snd (resolveProviders en fl (emit (Logger_Info msg) (init_world d fs))))) \<and>
       db_data (snd (resolveProviders en fl (emit (Logger_Info msg) (init_world d fs)))) ''p'' = Some (primaryAddr fl) \<and>
       db_data (snd (resolveProviders en fl (emit (Logger_Info msg) (init_world d fs)))) ''w'' = Some (witnessAddrsJoined fl))
      \<or> (\<exists>e. Logger_Error ''Unable to save primary and or witness addresses'' (Some e)
             \<in> set (events (snd (resolveProviders en fl (emit (Logger_Info msg) (init_world d fs)))))))"
proof -
  let ?w = "emit (Logger_Info msg) (init_world d fs)"
  obtain r w1 where s: "saveProviders (primaryAddr fl) (witnessAddrsJoined fl) ?w = (r, w1)"
    by (cases "saveProviders (primaryAddr fl) (witnessAddrsJoined fl) ?w")
  from save_events [OF s]
  obtain post where post: "events w1 = events ?w @ post" "clients post = []"
    "r = None \<longrightarrow>
       DB_Set ''p'' (primaryAddr fl) None \<in> set post \<and>
       DB_Set ''w'' (witnessAddrsJoined fl) None \<in> set post \<and>
       db_data w1 ''p'' = Some (primaryAddr fl) \<and>
       db_data w1 ''w'' = Some (witnessAddrsJoined fl)"
    by blast
  have c: "clients (events ?w) = []"
    by (simp add: emit_def init_world_def)
  have res: "snd (resolveProviders en fl ?w) =
      (case r of
         None \<Rightarrow> w1
       | Some e \<Rightarrow>
           emit (Logger_Error ''Unable to save primary and or witness addresses'' (Some e)) w1)"
    using assms by (simp add: resolveProviders_def s split: option.splits)
  show ?thesis
    unfolding res using post c
    by (cases r) (auto simp: emit_def)
qed

lemma run_after_resolve:
  "\<exists>post. events (snd (runProxy en fl (init_world d fs))) =
      events (snd (resolveProviders en fl (emit (Logger_Info ''Creating client...'') (init_world d fs)))) @ post \<and>
    db_data (snd (runProxy en fl (init_world d fs))) =
      db_data (snd (resolveProviders en fl (emit (Logger_Info ''Creating client...'') (init_world d fs))))"
  by (cases "resolveProviders en fl (emit (Logger_Info ''Creating client...'') (init_world d fs))")
     (auto simp: runProxy_def emit_def Let_def split: sum.splits option.splits)

lemma resolve_no_db:
  "NewGoLevelDB en ''light-client-db'' (home fl) = Some e \<Longrightarrow>
   fst (resolveProviders en fl w) = Inl (CantCreateDb e)"
  by (simp add: resolveProviders_def)

text \<open>C8. For every run with a primary given: if the database does not open, no light
  client is constructed at all; if it opens, the events of the run split into a first
  part, in which no light client is constructed, and the rest, such that in the first
  part either both writes of \<open>saveProviders\<close> succeeded (and the database holds the
  primary and the witnesses string) or the failure of the save was logged. So the save,
  or the log line of its failure, comes before the constructor call. The error the run
  returns is the one it returns when no database operation fails: a failing save never
  makes the run fail.\<close>

theorem C8_save_before_client:
  assumes "primaryAddr fl \<noteq> []"
  shows "(NewGoLevelDB en ''light-client-db'' (home fl) = None \<longrightarrow>
          (\<exists>pre post.
            events (snd (runProxy en fl (init_world d fs))) = pre @ post \<and>
            clients pre = [] \<and>
            ((DB_Set ''p'' (primaryAddr fl) None \<in> set pre \<and>
              DB_Set ''w'' (witnessAddrsJoined fl) None \<in> set pre \<and>
              db_data (snd (runProxy en fl (init_world d fs))) ''p'' = Some (primaryAddr fl) \<and>
              db_data (snd (runProxy en fl (init_world d fs))) ''w'' = Some (witnessAddrsJoined fl))
             \<or> (\<exists>e. Logger_Error ''Unable to save primary and or witness addresses'' (Some e)
                    \<in> set pre)))) \<and>
         (NewGoLevelDB en ''light-client-db'' (home fl) \<noteq> None \<longrightarrow>
            clients (events (snd (runProxy en fl (init_world d fs)))) = []) \<and>
         fst (runProxy en fl (init_world d fs)) = fst (runProxy en fl (init_world d []))"
proof (intro conjI impI)
  assume db: "NewGoLevelDB en ''light-client-db'' (home fl) = None"
  let ?w1 = "snd (resolveProviders en fl (emit (Logger_Info ''Creating client...'') (init_world d fs)))"
  obtain post where post: "events (snd (runProxy en fl (init_world d fs))) = events ?w1 @ post"
    and data: "db_data (snd (runProxy en fl (init_world d fs))) = db_data ?w1"
    using run_after_resolve [of en fl d fs] by blast
  show "\<exists>pre post.
            events (snd (runProxy en fl (init_world d fs))) = pre @ post \<and>
            clients pre = [] \<and>
            ((DB_Set ''p'' (primaryAddr fl) None \<in> set pre \<and>
              DB_Set ''w'' (witnessAddrsJoined fl) None \<in> set pre \<and>
              db_data (snd (runProxy en fl (init_world d fs))) ''p'' = Some (primaryAddr fl) \<and>
              db_data (snd (runProxy en fl (init_world d fs))) ''w'' = Some (witnessAddrsJoined fl))
             \<or> (\<exists>e. Logger_Error ''Unable to save primary and or witness addresses'' (Some e)
                    \<in> set pre))"
    using resolve_explicit_saved [OF assms db, of "''Creating client...''" d fs] post
    unfolding data by blast
next
  assume "NewGoLevelDB en ''light-client-db'' (home fl) \<noteq> None"
  then obtain e where "NewGoLevelDB en ''light-client-db'' (home fl) = Some e" by blast
  then show "clients (events (snd (runProxy en fl (init_world d fs)))) = []"
    by (simp add: run_clients resolve_no_db)
next
  show "fst (runProxy en fl (init_world d fs)) = fst (runProxy en fl (init_world d []))"
  proof (cases "NewGoLevelDB en ''light-client-db'' (home fl)")
    case None
    then show ?thesis by (simp add: run_result_early resolve_explicit [OF assms])
  next
    case (Some e)
    then show ?thesis by (simp add: run_result_early resolve_no_db)
  qed
qed

theorem C8_save_before_client_witness:
  "primaryAddr fresh_flags \<noteq> [] \<and>
   NewGoLevelDB good_env ''light-client-db'' (home fresh_flags) = None \<and>
   events (snd (runProxy good_env fresh_flags (init_world Map.empty full_disk))) =
     [Logger_Info ''Creating client...'',
      DB_Set ''p'' ''http://A'' None,
      DB_Set ''w'' [] (Some (ErrExternal ''no space left on device'')),
      Logger_Error ''Unable to save primary and or witness addresses''
        (Some (FailedToSaveWitness (ErrExternal ''no space left on device''))),
      Light_New (NewHTTPClient ''chain''
         \<lparr>Period = 604800000000000, Height = 100, Hash = [0xDE, 0xAD]\<rparr>
         ''http://A'' [] (dbs_New ''chain'')
         [Logger, SkippingVerification \<lparr>Numerator = 1, Denominator = 3\<rparr>]),
      Rpchttp_New ''http://A'' ''/websocket'', TrapSignal,
      Logger_Info ''Starting proxy...'',
      ListenAndServe \<lparr>Addr = ''tcp://localhost:8888'',
       Config = \<lparr>MaxBodyBytes = 1000000, MaxHeaderBytes = 1048576, MaxOpenConnections = 900,
                 ReadTimeout = 10000000000, WriteTimeout = 11000000000\<rparr>,
       Client_rpc = (''http://A'', ''/websocket''),
       Client_light = NewHTTPClient ''chain''
         \<lparr>Period = 604800000000000, Height = 100, Hash = [0xDE, 0xAD]\<rparr>
         ''http://A'' [] (dbs_New ''chain'')
         [Logger, SkippingVerification \<lparr>Numerator = 1, Denominator = 3\<rparr>]\<rparr>] \<and>
   fst (runProxy good_env fresh_flags (init_world Map.empty full_disk)) = None \<and>
   fst (runProxy good_env fresh_flags (init_world Map.empty [])) = None"
proof -
  have h1: "primaryAddr fresh_flags \<noteq> []"
    by (simp add: fresh_flags_def default_flags_def)
  have h2: "NewGoLevelDB good_env ''light-client-db'' (home fresh_flags) = None"
    by (simp add: good_env_def)
  have r: "fst (runProxy good_env fresh_flags (init_world Map.empty [])) = None"
    by (simp add: eval_defs fresh_flags_def word_sless_alt)
  have e: "events (snd (runProxy good_env fresh_flags (init_world Map.empty full_disk))) =
     [Logger_Info ''Creating client...'',
      DB_Set ''p'' ''http://A'' None,
      DB_Set ''w'' [] (Some (ErrExternal ''no space left on device'')),
      Logger_Error ''Unable to save primary and or witness addresses''
        (Some (FailedToSaveWitness (ErrExternal ''no space left on device''))),
      Light_New (NewHTTPClient ''chain''
         \<lparr>Period = 604800000000000, Height = 100, Hash = [0xDE, 0xAD]\<rparr>
         ''http://A'' [] (dbs_New ''chain'')
         [Logger, SkippingVerification \<lparr>Numerator = 1, Denominator = 3\<rparr>]),
      Rpchttp_New ''http://A'' ''/websocket'', TrapSignal,
      Logger_Info ''Starting proxy...'',
      ListenAndServe \<lparr>Addr = ''tcp://localhost:8888'',
       Config = \<lparr>MaxBodyBytes = 1000000, MaxHeaderBytes = 1048576, MaxOpenConnections = 900,
                 ReadTimeout = 10000000000, WriteTimeout = 11000000000\<rparr>,
       Client_rpc = (''http://A'', ''/websocket''),
       Client_light = NewHTTPClient ''chain''
         \<lparr>Period = 604800000000000, Height = 100, Hash = [0xDE, 0xAD]\<rparr>
         ''http://A'' [] (dbs_New ''chain'')
         [Logger, SkippingVerification \<lparr>Numerator = 1, Denominator = 3\<rparr>]\<rparr>]"
    by (simp add: eval_defs fresh_flags_def full_disk_def word_sless_alt)
  from C8_save_before_client [OF h1, of good_env Map.empty full_disk] h1 h2 r e
  show ?thesis by simp
qed

subsection \<open>Two runs of the spec's scenarios\<close>

text \<open>X2. No primary given, and a database holding primary \<open>http://B\<close> and witnesses
  \<open>http://C,http://D\<close>: the providers loaded are exactly this primary and the two
  witnesses in order, and the run continues from the trusted store with them.\<close>

theorem X2_resume_scenario:
  "fst (checkForExistingProviders
         (init_world [''p'' \<mapsto> ''http://B'', ''w'' \<mapsto> ''http://C,http://D''] []))
     = (''http://B'', [''http://C'', ''http://D''], None) \<and>
   map witnesses (clients (events (snd (runProxy good_env default_flags
       (init_world [''p'' \<mapsto> ''http://B'', ''w'' \<mapsto> ''http://C,http://D''] [])))))
     = [[''http://C'', ''http://D'']] \<and>
   map is_resume (clients (events (snd (runProxy good_env default_flags
       (init_world [''p'' \<mapsto> ''http://B'', ''w'' \<mapsto> ''http://C,http://D''] [])))))
     = [True] \<and>
   transports (events (snd (runProxy good_env default_flags
       (init_world [''p'' \<mapsto> ''http://B'', ''w'' \<mapsto> ''http://C,http://D''] []))))
     = [(''http://B'', ''/websocket'')]"
  by (simp add: eval_defs word_sless_alt)

text \<open>X3. Primary \<open>http://A\<close>, no witnesses, height 100, a hash, not sequential, trust
  level 1/3: a fresh client with skipping verification at 1/3, for primary
  \<open>http://A\<close> and no witnesses; the run then serves and returns \<open>nil\<close>.\<close>

theorem X3_fresh_scenario:
  "clients (events (snd (runProxy good_env fresh_flags (init_world Map.empty [])))) =
     [NewHTTPClient ''chain''
        \<lparr>Period = 604800000000000, Height = 100, Hash = [0xDE, 0xAD]\<rparr>
        ''http://A'' [] (dbs_New ''chain'')
        [Logger, SkippingVerification \<lparr>Numerator = 1, Denominator = 3\<rparr>]] \<and>
   fst (runProxy good_env fresh_flags (init_world Map.empty [])) = None"
  by (simp add: eval_defs fresh_flags_def word_sless_alt)

end
